theory Spec2Isabelle
  imports Main
begin

section \<open>Python strings\<close>

text \<open>
  A Python \<^verbatim>\<open>str\<close> is a sequence of Unicode code points, and \<^verbatim>\<open>len\<close> counts code
  points. A code point is modelled as a natural number and a string as the list of its
  code points; \<open>py\<close> reads an ASCII literal of the source.
\<close>

type_synonym codepoint = nat
type_synonym pystr = "codepoint list"

definition ord :: "char \<Rightarrow> codepoint" where
  "ord c = of_char c"

definition py :: "string \<Rightarrow> pystr" where
  "py s = map ord s"

text \<open>
  \<^verbatim>\<open>str.isspace\<close> for one code point, which is also what \<^verbatim>\<open>\s\<close> matches in a
  \<^verbatim>\<open>str\<close> pattern of \<^verbatim>\<open>re\<close> and what \<^verbatim>\<open>str.strip()\<close> removes: the code points
  whose bidirectional class is WS, B or S, or whose category is Zs.
\<close>

definition isspace :: "codepoint \<Rightarrow> bool" where
  "isspace c =
     ((0x09 \<le> c \<and> c \<le> 0x0D) \<or> (0x1C \<le> c \<and> c \<le> 0x20) \<or> c = 0x85 \<or> c = 0xA0 \<or>
      c = 0x1680 \<or> (0x2000 \<le> c \<and> c \<le> 0x200A) \<or> c = 0x2028 \<or> c = 0x2029 \<or>
      c = 0x202F \<or> c = 0x205F \<or> c = 0x3000)"

text \<open>\<^verbatim>\<open>s.strip()\<close>: leading and trailing whitespace removed.\<close>

definition strip :: "pystr \<Rightarrow> pystr" where
  "strip s = rev (dropWhile isspace (rev (dropWhile isspace s)))"

text \<open>\<^verbatim>\<open>s.replace(c, r)\<close> for a one-character \<open>c\<close>.\<close>

definition replace :: "codepoint \<Rightarrow> pystr \<Rightarrow> pystr \<Rightarrow> pystr" where
  "replace c r s = concat (map (\<lambda>x. if x = c then r else [x]) s)"

text \<open>
  \<^verbatim>\<open>html.escape(s)\<close> with its default \<^verbatim>\<open>quote=True\<close>: five replacements in this
  order, the ampersand first.
\<close>

definition escape :: "pystr \<Rightarrow> pystr" where
  "escape s =
     (let s = replace (ord CHR ''&'') (py ''&amp;'') s;
          s = replace (ord CHR ''<'') (py ''&lt;'') s;
          s = replace (ord CHR ''>'') (py ''&gt;'') s;
          s = replace (ord CHR 0x22) (py ''&quot;'') s;
          s = replace (ord CHR 0x27) (py ''&#x27;'') s
      in s)"

text \<open>\<^verbatim>\<open>sep.join(xs)\<close>.\<close>

fun join :: "pystr \<Rightarrow> pystr list \<Rightarrow> pystr" where
  "join sep [] = []"
| "join sep [x] = x"
| "join sep (x # y # ys) = x @ sep @ join sep (y # ys)"

section \<open>The regular expressions of the source\<close>

text \<open>
  The patterns of \<^verbatim>\<open>app.py\<close> are sequences of anchors, literal characters and
  character sets, a set possibly repeated by \<^verbatim>\<open>+\<close> or \<^verbatim>\<open>{n,}\<close>. A set lists
  characters, ranges and \<^verbatim>\<open>\s\<close>, and may be negated.
\<close>

datatype item = Ch codepoint | Range codepoint codepoint | Space

datatype charset = Set "item list" | NotSet "item list"

datatype atom =
    Bol
  | Eol
  | Lit codepoint
  | One charset
  | Plus charset
  | AtLeast nat charset

fun in_item :: "codepoint \<Rightarrow> item \<Rightarrow> bool" where
  "in_item c (Ch d) = (c = d)"
| "in_item c (Range lo hi) = (lo \<le> c \<and> c \<le> hi)"
| "in_item c Space = isspace c"

fun in_set :: "charset \<Rightarrow> codepoint \<Rightarrow> bool" where
  "in_set (Set items) c = list_ex (in_item c) items"
| "in_set (NotSet items) c = (\<not> list_ex (in_item c) items)"

text \<open>
  The matcher backtracks as \<^verbatim>\<open>re\<close> does. A greedy repetition takes a character
  while it can and tries the rest of the pattern, \<open>k\<close>, from the longest run first, then
  from each shorter one down to the minimum \<open>lo\<close>. The result is what is left of the
  string after the first match found.
\<close>

fun greedy :: "(codepoint \<Rightarrow> bool) \<Rightarrow> nat \<Rightarrow> (pystr \<Rightarrow> pystr option) \<Rightarrow> pystr \<Rightarrow> pystr option" where
  "greedy P lo k [] = (if lo = 0 then k [] else None)"
| "greedy P lo k (c # cs) =
     (if P c then
        (case greedy P (lo - 1) k cs of
           Some r \<Rightarrow> Some r
         | None \<Rightarrow> if lo = 0 then k (c # cs) else None)
      else if lo = 0 then k (c # cs) else None)"

text \<open>
  \<open>match_atoms p w s\<close> matches the pattern \<open>p\<close> at the suffix \<open>s\<close> of the whole
  string \<open>w\<close>. Without \<^verbatim>\<open>re.MULTILINE\<close>, \<^verbatim>\<open>^\<close> matches at the start of the string
  only, and \<^verbatim>\<open>$\<close> at its end and just before a newline that ends it.
\<close>

fun match_atoms :: "atom list \<Rightarrow> pystr \<Rightarrow> pystr \<Rightarrow> pystr option" where
  "match_atoms [] w s = Some s"
| "match_atoms (Bol # p) w s = (if length s = length w then match_atoms p w s else None)"
| "match_atoms (Eol # p) w s = (if s = [] \<or> s = [0x0A] then match_atoms p w s else None)"
| "match_atoms (Lit c # p) w s =
     (case s of [] \<Rightarrow> None | x # xs \<Rightarrow> if x = c then match_atoms p w xs else None)"
| "match_atoms (One C # p) w s =
     (case s of [] \<Rightarrow> None | x # xs \<Rightarrow> if in_set C x then match_atoms p w xs else None)"
| "match_atoms (Plus C # p) w s = greedy (in_set C) 1 (\<lambda>r. match_atoms p w r) s"
| "match_atoms (AtLeast n C # p) w s = greedy (in_set C) n (\<lambda>r. match_atoms p w r) s"

text \<open>\<^verbatim>\<open>bool(re.match(p, s))\<close>: a match that starts at the first character.\<close>

definition re_match :: "atom list \<Rightarrow> pystr \<Rightarrow> bool" where
  "re_match p s = (match_atoms p s s \<noteq> None)"

text \<open>
  \<^verbatim>\<open>re.sub(p, '', s)\<close>: the leftmost match is removed and the scan goes on after it; a
  character where no match starts is kept. Every pattern the source gives to
  \<^verbatim>\<open>re.sub\<close> starts with a character, so a match is never empty; a position whose match
  would be empty keeps its character here.
\<close>

function sub_from :: "atom list \<Rightarrow> pystr \<Rightarrow> pystr \<Rightarrow> pystr" where
  "sub_from p w [] = []"
| "sub_from p w (c # cs) =
     (case match_atoms p w (c # cs) of
        None \<Rightarrow> c # sub_from p w cs
      | Some r \<Rightarrow> if length r < length (c # cs) then sub_from p w r else c # sub_from p w cs)"
  by pat_completeness auto
termination
  by (relation "measure (\<lambda>(p, w, s). length s)") auto

definition re_sub :: "atom list \<Rightarrow> pystr \<Rightarrow> pystr" where
  "re_sub p s = sub_from p s s"

text \<open>\<^verbatim>\<open>bool(re.search(p, s))\<close>: a match that starts anywhere.\<close>

fun search_from :: "atom list \<Rightarrow> pystr \<Rightarrow> pystr \<Rightarrow> bool" where
  "search_from p w [] = (match_atoms p w [] \<noteq> None)"
| "search_from p w (c # cs) = (match_atoms p w (c # cs) \<noteq> None \<or> search_from p w cs)"

definition re_search :: "atom list \<Rightarrow> pystr \<Rightarrow> bool" where
  "re_search p s = search_from p s s"

text \<open>The four patterns, as \<^verbatim>\<open>app.py\<close> writes them.\<close>

definition TAG :: "atom list" where
  \<comment> \<open>\<^verbatim>\<open><[^>]+>\<close>\<close>
  "TAG = [Lit (ord CHR ''<''), Plus (NotSet [Ch (ord CHR ''>'')]), Lit (ord CHR ''>'')]"

definition CONTROL :: "atom list" where
  \<comment> \<open>\<^verbatim>\<open>[\x00-\x1f\x7f-\x9f]\<close>\<close>
  "CONTROL = [One (Set [Range 0x00 0x1F, Range 0x7F 0x9F])]"

definition EMAIL :: "atom list" where
  \<comment> \<open>\<^verbatim>\<open>^[a-zA-Z0-9._%+-]+@[a-zA-Z0-9.-]+\.[a-zA-Z]{2,}$\<close>\<close>
  "EMAIL =
     [Bol,
      Plus (Set [Range (ord CHR ''a'') (ord CHR ''z''), Range (ord CHR ''A'') (ord CHR ''Z''),
                 Range (ord CHR ''0'') (ord CHR ''9''), Ch (ord CHR ''.''), Ch (ord CHR ''_''),
                 Ch (ord CHR ''%''), Ch (ord CHR ''+''), Ch (ord CHR ''-'')]),
      Lit (ord CHR ''@''),
      Plus (Set [Range (ord CHR ''a'') (ord CHR ''z''), Range (ord CHR ''A'') (ord CHR ''Z''),
                 Range (ord CHR ''0'') (ord CHR ''9''), Ch (ord CHR ''.''), Ch (ord CHR ''-'')]),
      Lit (ord CHR ''.''),
      AtLeast 2 (Set [Range (ord CHR ''a'') (ord CHR ''z''), Range (ord CHR ''A'') (ord CHR ''Z'')]),
      Eol]"

definition PHONE_FORMATTING :: "atom list" where
  \<comment> \<open>\<^verbatim>\<open>[\s\-\(\)\+]\<close>\<close>
  "PHONE_FORMATTING =
     [One (Set [Space, Ch (ord CHR ''-''), Ch (ord CHR ''(''), Ch (ord CHR '')''),
                Ch (ord CHR ''+'')])]"

section \<open>The functions of app.py\<close>

definition sanitize_input :: "pystr \<Rightarrow> pystr" where
  "sanitize_input text0 =
     (if text0 = [] then []
      else
        let text1 = re_sub TAG text0;
            text2 = escape text1;
            text3 = re_sub CONTROL text2;
            text4 = strip text3
        in text4)"

definition validate_email :: "pystr \<Rightarrow> bool" where
  "validate_email email = (if email = [] then False else re_match EMAIL email)"

text \<open>
  \<^verbatim>\<open>str.isdigit\<close> holds for a non-empty string of code points that the Unicode database
  of the Python runtime marks as digits. That table is data of the runtime and differs
  between its versions, so it is the parameter \<open>digit\<close> of everything that reads it.
\<close>

definition isdigit :: "(codepoint \<Rightarrow> bool) \<Rightarrow> pystr \<Rightarrow> bool" where
  "isdigit digit s = (s \<noteq> [] \<and> list_all digit s)"

definition validate_phone :: "(codepoint \<Rightarrow> bool) \<Rightarrow> pystr \<Rightarrow> bool" where
  "validate_phone digit phone =
     (if phone = [] then True
      else
        let cleaned = re_sub PHONE_FORMATTING phone
        in isdigit digit cleaned \<and> length cleaned \<ge> 10)"

text \<open>
  \<^verbatim>\<open>format_message_for_telegram\<close>. The time stamp is
  \<^verbatim>\<open>datetime.now().strftime("%Y-%m-%d %H:%M:%S")\<close>, read from the clock: a parameter.
  The pictographs of the template are written as their code points.
\<close>

definition nl :: pystr where
  "nl = [0x0A]"

definition format_message_for_telegram :: "pystr \<Rightarrow> pystr \<Rightarrow> pystr \<Rightarrow> pystr \<Rightarrow> pystr \<Rightarrow> pystr" where
  "format_message_for_telegram timestamp name email phone message =
     nl @ [0x1F514] @ py '' *New Contact Form Submission*'' @ nl @
     nl @ [0x1F4C5] @ py '' *Date:* '' @ timestamp @
     nl @ [0x1F4CD] @ py '' *Location:* McDonald's NYC - Times Square'' @ nl @
     nl @ [0x1F464] @ py '' *Name:* '' @ name @
     nl @ [0x1F4E7] @ py '' *Email:* '' @ email @
     nl @ [0x1F4F1] @ py '' *Phone:* '' @ (if phone \<noteq> [] then phone else py ''Not provided'') @ nl @
     nl @ [0x1F4AC] @ py '' *Message:*'' @
     nl @ message @ nl @
     nl @ py ''---'' @
     nl @ py ''This message was sent from the McDonald's Times Square contact form.'' @ nl"

subsection \<open>The request, the configuration and the outside world\<close>

text \<open>
  \<^verbatim>\<open>request.form\<close> is a dictionary of the posted fields. The two module constants
  \<^verbatim>\<open>TELEGRAM_BOT_TOKEN\<close> and \<^verbatim>\<open>TELEGRAM_CHAT_ID\<close> are the configuration, which a
  deployment replaces; \<^verbatim>\<open>TELEGRAM_API_URL\<close> is computed from the token.
\<close>

type_synonym form = "pystr \<rightharpoonup> pystr"

definition form_get :: "form \<Rightarrow> pystr \<Rightarrow> pystr \<Rightarrow> pystr" where
  "form_get f key dflt = (case f key of None \<Rightarrow> dflt | Some v \<Rightarrow> v)"

record config =
  TELEGRAM_BOT_TOKEN :: pystr
  TELEGRAM_CHAT_ID :: pystr

definition source_config :: config where
  "source_config =
     \<lparr>TELEGRAM_BOT_TOKEN = py ''YOUR_BOT_TOKEN_HERE'', TELEGRAM_CHAT_ID = py ''YOUR_CHAT_ID_HERE''\<rparr>"

definition TELEGRAM_API_URL :: "config \<Rightarrow> pystr" where
  "TELEGRAM_API_URL cfg =
     py ''https://api.telegram.org/bot'' @ TELEGRAM_BOT_TOKEN cfg @ py ''/sendMessage''"

record payload =
  chat_id :: pystr
  text_of :: pystr
  parse_mode :: pystr

text \<open>
  What the outbound call can do. An exception is a \<^verbatim>\<open>requests.exceptions.RequestException\<close>
  (a timeout, a failed connection, the \<^verbatim>\<open>HTTPError\<close> of \<^verbatim>\<open>raise_for_status\<close>), which the
  inner handler catches, or any other one, which the outer handler catches; it carries the
  text of \<^verbatim>\<open>str(e)\<close>. A response has its status code, the text of the \<^verbatim>\<open>HTTPError\<close> that
  \<^verbatim>\<open>raise_for_status\<close> raises for it when the status is 4xx or 5xx, and what
  \<^verbatim>\<open>.json()\<close> gives: an exception, an object (with the truth value of its \<^verbatim>\<open>.get('ok')\<close>)
  or a value that is no object (with the text of the \<^verbatim>\<open>AttributeError\<close> of \<^verbatim>\<open>.get\<close>).
\<close>

datatype exn = RequestException pystr | OtherException pystr

datatype json = JsonObject bool | JsonOther pystr

record http_response =
  status_code :: nat
  http_error :: pystr
  json_result :: "exn + json"

datatype post_outcome = Raised exn | Returned http_response

type_synonym http = "pystr \<Rightarrow> payload \<Rightarrow> nat \<Rightarrow> post_outcome"

text \<open>What the handler answers: \<^verbatim>\<open>jsonify({'success': .., 'message': ..}), status\<close>, the
  two keys of the body as \<open>body_success\<close> and \<open>body_message\<close>.\<close>

record response =
  status :: nat
  body_success :: bool
  body_message :: pystr

text \<open>
  What the handler does besides answering, in the order it does it: the calls of
  \<^verbatim>\<open>sanitize_input\<close> (with the argument), the outbound \<^verbatim>\<open>requests.post\<close> (URL, JSON body,
  timeout in seconds) and the lines it prints.
\<close>

datatype event = Sanitize pystr | HttpPost pystr payload nat | Print pystr

subsection \<open>The handler of POST /submit\<close>

text \<open>Lines 112 to 135: the list \<^verbatim>\<open>validation_errors\<close> after the four checks.\<close>

definition validation_errors :: "(codepoint \<Rightarrow> bool) \<Rightarrow> pystr \<Rightarrow> pystr \<Rightarrow> pystr \<Rightarrow> pystr \<Rightarrow> pystr list" where
  "validation_errors digit name email message phone =
     (let errors = [];
          errors =
            (if name = [] then errors @ [py ''Name is required'']
             else if length name < 2 then errors @ [py ''Name must be at least 2 characters long'']
             else if length name > 100 then errors @ [py ''Name must be less than 100 characters'']
             else errors);
          errors =
            (if email = [] then errors @ [py ''Email is required'']
             else if \<not> validate_email email then errors @ [py ''Invalid email format'']
             else errors);
          errors =
            (if message = [] then errors @ [py ''Message is required'']
             else if length message < 10 then errors @ [py ''Message must be at least 10 characters long'']
             else if length message > 1000 then errors @ [py ''Message must be less than 1000 characters'']
             else errors);
          errors =
            (if phone \<noteq> [] \<and> \<not> validate_phone digit phone
             then errors @ [py ''Invalid phone number format'']
             else errors)
      in errors)"

definition failed_to_send :: response where
  "failed_to_send =
     \<lparr>status = 500, body_success = False,
      body_message = py ''Failed to send message. Please try again later.''\<rparr>"

definition unexpected_error :: response where
  "unexpected_error =
     \<lparr>status = 500, body_success = False,
      body_message = py ''An unexpected error occurred. Please try again later.''\<rparr>"

text \<open>
  Lines 167 to 202: the two handlers. A \<^verbatim>\<open>RequestException\<close> raised inside the inner
  \<^verbatim>\<open>try\<close> is printed and answered there; any other exception reaches the outer handler.
\<close>

definition handle_exn :: "exn \<Rightarrow> response \<times> event list" where
  "handle_exn e =
     (case e of
        RequestException detail \<Rightarrow> (failed_to_send, [Print (py ''Telegram API error: '' @ detail)])
      | OtherException detail \<Rightarrow> (unexpected_error, [Print (py ''Unexpected error: '' @ detail)]))"

text \<open>
  Lines 168 to 186, after the call has returned or raised. \<^verbatim>\<open>raise_for_status\<close> raises
  an \<^verbatim>\<open>HTTPError\<close> for a status from 400 to 599 and for no other.
\<close>

definition after_post :: "post_outcome \<Rightarrow> response \<times> event list" where
  "after_post outcome =
     (case outcome of
        Raised e \<Rightarrow> handle_exn e
      | Returned telegram_response \<Rightarrow>
          if 400 \<le> status_code telegram_response \<and> status_code telegram_response < 600
          then handle_exn (RequestException (http_error telegram_response))
          else
            (case json_result telegram_response of
               Inl e \<Rightarrow> handle_exn e
             | Inr (JsonOther detail) \<Rightarrow> handle_exn (OtherException detail)
             | Inr (JsonObject ok) \<Rightarrow>
                 if ok then
                   (\<lparr>status = 200, body_success = True,
                     body_message = py ''Thank you! Your message has been sent successfully. We will get back to you soon.''\<rparr>,
                    [])
                 else (failed_to_send, [])))"

definition submit_contact_form ::
    "config \<Rightarrow> (codepoint \<Rightarrow> bool) \<Rightarrow> pystr \<Rightarrow> http \<Rightarrow> form \<Rightarrow> response \<times> event list" where
  "submit_contact_form cfg digit timestamp post f =
     (let name = strip (form_get f (py ''name'') []);
          email = strip (form_get f (py ''email'') []);
          phone = strip (form_get f (py ''phone'') []);
          message = strip (form_get f (py ''message'') []);
          errors = validation_errors digit name email message phone
      in
        if errors \<noteq> [] then
          (\<lparr>status = 400, body_success = False,
            body_message = py ''Validation errors: '' @ join (py '', '') errors\<rparr>,
           [])
        else
          let sanitized =
                [Sanitize name, Sanitize email] @ (if phone \<noteq> [] then [Sanitize phone] else []) @
                [Sanitize message];
              name = sanitize_input name;
              email = sanitize_input email;
              phone = (if phone \<noteq> [] then sanitize_input phone else []);
              message = sanitize_input message
          in
            if TELEGRAM_BOT_TOKEN cfg = py ''YOUR_BOT_TOKEN_HERE'' \<or>
               TELEGRAM_CHAT_ID cfg = py ''YOUR_CHAT_ID_HERE''
            then
              (\<lparr>status = 500, body_success = False,
                body_message = py ''Server configuration error: Telegram Bot Token or Chat ID not configured''\<rparr>,
               sanitized)
            else
              let telegram_message = format_message_for_telegram timestamp name email phone message;
                  telegram_payload =
                    \<lparr>chat_id = TELEGRAM_CHAT_ID cfg, text_of = telegram_message,
                     parse_mode = py ''Markdown''\<rparr>;
                  outcome = post (TELEGRAM_API_URL cfg) telegram_payload 10;
                  (answer, printed) = after_post outcome
              in (answer, sanitized @ [HttpPost (TELEGRAM_API_URL cfg) telegram_payload 10] @ printed))"

section \<open>What the specification says, in its own words\<close>

text \<open>
  The email pattern of the specification: \<^verbatim>\<open>local-part@domain.tld\<close>, the local part
  one or more of \<^verbatim>\<open>[a-zA-Z0-9._%+-]\<close>, the domain one or more of \<^verbatim>\<open>[a-zA-Z0-9.-]\<close>, the
  top-level domain two or more of \<^verbatim>\<open>[a-zA-Z]\<close>. A string matches when it is such a
  local part, an at sign, such a domain, a dot and such a top-level domain, and nothing
  else.
\<close>

definition letter :: "codepoint \<Rightarrow> bool" where
  "letter c = ((ord CHR ''a'' \<le> c \<and> c \<le> ord CHR ''z'') \<or> (ord CHR ''A'' \<le> c \<and> c \<le> ord CHR ''Z''))"

definition ascii_digit :: "codepoint \<Rightarrow> bool" where
  "ascii_digit c = (ord CHR ''0'' \<le> c \<and> c \<le> ord CHR ''9'')"

definition local_char :: "codepoint \<Rightarrow> bool" where
  "local_char c = (letter c \<or> ascii_digit c \<or> c \<in> ord ` {CHR ''.'', CHR ''_'', CHR ''%'', CHR ''+'', CHR ''-''})"

definition domain_char :: "codepoint \<Rightarrow> bool" where
  "domain_char c = (letter c \<or> ascii_digit c \<or> c \<in> ord ` {CHR ''.'', CHR ''-''})"

definition email_pattern :: "pystr \<Rightarrow> bool" where
  "email_pattern s =
     (\<exists>local_part domain tld.
        s = local_part @ [ord CHR ''@''] @ domain @ [ord CHR ''.''] @ tld \<and>
        local_part \<noteq> [] \<and> list_all local_char local_part \<and>
        domain \<noteq> [] \<and> list_all domain_char domain \<and>
        2 \<le> length tld \<and> list_all letter tld)"

text \<open>
  The phone rule of the specification: the characters space, \<^verbatim>\<open>-\<close>, \<^verbatim>\<open>(\<close>, \<^verbatim>\<open>)\<close> and
  \<^verbatim>\<open>+\<close>, and no other, are removed; what remains must be digits only, and at least ten.
  An empty value passes.
\<close>

definition spec_phone_formatting :: "codepoint \<Rightarrow> bool" where
  "spec_phone_formatting c = (c \<in> ord ` {CHR '' '', CHR ''-'', CHR ''('', CHR '')'', CHR ''+''})"

definition spec_phone_ok :: "(codepoint \<Rightarrow> bool) \<Rightarrow> pystr \<Rightarrow> bool" where
  "spec_phone_ok digit phone =
     (phone = [] \<or>
      (let residue = filter (\<lambda>c. \<not> spec_phone_formatting c) phone
       in list_all digit residue \<and> 10 \<le> length residue))"

text \<open>The same rule with every whitespace character removed, not the space alone.\<close>

definition phone_formatting :: "codepoint \<Rightarrow> bool" where
  "phone_formatting c = (isspace c \<or> c \<in> ord ` {CHR ''-'', CHR ''('', CHR '')'', CHR ''+''})"

definition phone_ok :: "(codepoint \<Rightarrow> bool) \<Rightarrow> pystr \<Rightarrow> bool" where
  "phone_ok digit phone =
     (phone = [] \<or>
      (let residue = filter (\<lambda>c. \<not> phone_formatting c) phone
       in list_all digit residue \<and> 10 \<le> length residue))"

text \<open>The control characters: the ranges 0x00 to 0x1F and 0x7F to 0x9F.\<close>

definition control :: "codepoint \<Rightarrow> bool" where
  "control c = (c \<le> 0x1F \<or> (0x7F \<le> c \<and> c \<le> 0x9F))"

text \<open>
  A string is tag-like when it is \<^verbatim>\<open><\<close>, one or more characters other than \<^verbatim>\<open>>\<close>, and
  \<^verbatim>\<open>>\<close>; a string contains a tag when a part of it is tag-like.
\<close>

definition tag_like :: "pystr \<Rightarrow> bool" where
  "tag_like t =
     (\<exists>body. t = [ord CHR ''<''] @ body @ [ord CHR ''>''] \<and> body \<noteq> [] \<and> ord CHR ''>'' \<notin> set body)"

definition contains_tag :: "pystr \<Rightarrow> bool" where
  "contains_tag s = (\<exists>before t after. s = before @ t @ after \<and> tag_like t)"

text \<open>
  The errors of each field on its own, for the four rules of the validator: at most one
  message per field.
\<close>

definition name_errors :: "pystr \<Rightarrow> pystr list" where
  "name_errors name =
     (if name = [] then [py ''Name is required'']
      else if length name < 2 then [py ''Name must be at least 2 characters long'']
      else if length name > 100 then [py ''Name must be less than 100 characters'']
      else [])"

definition email_errors :: "pystr \<Rightarrow> pystr list" where
  "email_errors email =
     (if email = [] then [py ''Email is required'']
      else if \<not> validate_email email then [py ''Invalid email format'']
      else [])"

definition message_errors :: "pystr \<Rightarrow> pystr list" where
  "message_errors message =
     (if message = [] then [py ''Message is required'']
      else if length message < 10 then [py ''Message must be at least 10 characters long'']
      else if length message > 1000 then [py ''Message must be less than 1000 characters'']
      else [])"

definition phone_errors :: "(codepoint \<Rightarrow> bool) \<Rightarrow> pystr \<Rightarrow> pystr list" where
  "phone_errors digit phone =
     (if phone \<noteq> [] \<and> \<not> validate_phone digit phone then [py ''Invalid phone number format'']
      else [])"

text \<open>
  The characters \<^verbatim>\<open>html.escape\<close> rewrites, and what it writes for one character.
\<close>

definition special :: "codepoint \<Rightarrow> bool" where
  "special c = (c \<in> ord ` {CHR ''&'', CHR ''<'', CHR ''>'', CHR 0x22, CHR 0x27})"

definition escape_char :: "codepoint \<Rightarrow> pystr" where
  "escape_char c =
     (if c = ord CHR ''&'' then py ''&amp;''
      else if c = ord CHR ''<'' then py ''&lt;''
      else if c = ord CHR ''>'' then py ''&gt;''
      else if c = ord CHR 0x22 then py ''&quot;''
      else if c = ord CHR 0x27 then py ''&#x27;''
      else [c])"

text \<open>
  The validation errors of a request: the four fields are read from the form and trimmed
  as the handler does (lines 106 to 109), then checked.
\<close>

definition request_errors :: "(codepoint \<Rightarrow> bool) \<Rightarrow> form \<Rightarrow> pystr list" where
  "request_errors digit f =
     validation_errors digit
       (strip (form_get f (py ''name'') []))
       (strip (form_get f (py ''email'') []))
       (strip (form_get f (py ''message'') []))
       (strip (form_get f (py ''phone'') []))"

text \<open>
  The JSON body of the outbound request (lines 145 to 165): the fields are sanitized, the
  phone only when it is not empty, and formatted.
\<close>

definition outbound_payload :: "config \<Rightarrow> pystr \<Rightarrow> form \<Rightarrow> payload" where
  "outbound_payload cfg timestamp f =
     (let name = sanitize_input (strip (form_get f (py ''name'') []));
          email = sanitize_input (strip (form_get f (py ''email'') []));
          phone = (if strip (form_get f (py ''phone'') []) \<noteq> []
                   then sanitize_input (strip (form_get f (py ''phone'') [])) else []);
          message = sanitize_input (strip (form_get f (py ''message'') []))
      in \<lparr>chat_id = TELEGRAM_CHAT_ID cfg,
          text_of = format_message_for_telegram timestamp name email phone message,
          parse_mode = py ''Markdown''\<rparr>)"

text \<open>The outbound requests among the events of a run.\<close>

fun is_post :: "event \<Rightarrow> bool" where
  "is_post (HttpPost url body timeout) = True"
| "is_post (Sanitize s) = False"
| "is_post (Print s) = False"

fun is_sanitize :: "event \<Rightarrow> bool" where
  "is_sanitize (Sanitize s) = True"
| "is_sanitize (HttpPost url body timeout) = False"
| "is_sanitize (Print s) = False"

text \<open>
  The credentials are configured when neither is the placeholder of the source.
\<close>

definition configured :: "config \<Rightarrow> bool" where
  "configured cfg =
     (TELEGRAM_BOT_TOKEN cfg \<noteq> py ''YOUR_BOT_TOKEN_HERE'' \<and>
      TELEGRAM_CHAT_ID cfg \<noteq> py ''YOUR_CHAT_ID_HERE'')"

text \<open>
  The failures of a dispatch that the specification lists: a network-level error (a
  timeout or a failed connection, both a \<^verbatim>\<open>RequestException\<close>), a response whose status
  is an error status, and a response whose body is an object that does not say
  \<^verbatim>\<open>ok\<close>. The specification calls every status outside 2xx an error status; the code
  takes the statuses 400 to 599.
\<close>

definition rejected_by_remote :: "http_response \<Rightarrow> bool" where
  "rejected_by_remote r = (json_result r = Inr (JsonObject False))"

definition spec_dispatch_failed :: "post_outcome \<Rightarrow> bool" where
  "spec_dispatch_failed outcome =
     (case outcome of
        Raised e \<Rightarrow> (case e of RequestException detail \<Rightarrow> True | OtherException detail \<Rightarrow> False)
      | Returned r \<Rightarrow>
          (if 200 \<le> status_code r \<and> status_code r < 300 then rejected_by_remote r else True))"

definition dispatch_failed :: "post_outcome \<Rightarrow> bool" where
  "dispatch_failed outcome =
     (case outcome of
        Raised e \<Rightarrow> (case e of RequestException detail \<Rightarrow> True | OtherException detail \<Rightarrow> False)
      | Returned r \<Rightarrow>
          (if 400 \<le> status_code r \<and> status_code r < 600 then True else rejected_by_remote r))"

text \<open>The three messages of the name rule.\<close>

definition name_required :: pystr where
  "name_required = py ''Name is required''"

definition name_too_short :: pystr where
  "name_too_short = py ''Name must be at least 2 characters long''"

definition name_too_long :: pystr where
  "name_too_long = py ''Name must be less than 100 characters''"

definition name_message :: "pystr \<Rightarrow> bool" where
  "name_message e = (e = name_required \<or> e = name_too_short \<or> e = name_too_long)"

definition name_length_message :: "pystr \<Rightarrow> bool" where
  "name_length_message e = (e = name_too_short \<or> e = name_too_long)"

section \<open>Example requests\<close>

text \<open>
  A request that passes validation (the end-to-end example of the specification), one
  whose name has one character, one without a name, a configuration with both
  credentials set, and three answers of the outside world: a timeout, a 304 response
  whose body says \<^verbatim>\<open>ok\<close>, and a 200 response whose body says \<^verbatim>\<open>ok\<close>.
\<close>

definition valid_form :: form where
  "valid_form =
     [py ''name'' \<mapsto> py ''Al'', py ''email'' \<mapsto> py ''a@b.co'',
      py ''message'' \<mapsto> py ''1234567890'']"

definition short_name_form :: form where
  "short_name_form =
     [py ''name'' \<mapsto> py ''A'', py ''email'' \<mapsto> py ''a@b.co'',
      py ''message'' \<mapsto> py ''1234567890'']"

definition no_name_form :: form where
  "no_name_form = [py ''email'' \<mapsto> py ''a@b.co'', py ''message'' \<mapsto> py ''1234567890'']"

definition all_invalid_form :: form where
  "all_invalid_form =
     [py ''name'' \<mapsto> py ''A'', py ''email'' \<mapsto> py ''nobody'', py ''message'' \<mapsto> py ''short'',
      py ''phone'' \<mapsto> py ''12345'']"

definition some_config :: config where
  "some_config = \<lparr>TELEGRAM_BOT_TOKEN = py ''123:abc'', TELEGRAM_CHAT_ID = py ''42''\<rparr>"

definition times_out :: http where
  "times_out url body timeout = Raised (RequestException (py ''Read timed out.''))"

definition answers_304_ok :: http where
  "answers_304_ok url body timeout =
     Returned \<lparr>status_code = 304, http_error = [], json_result = Inr (JsonObject True)\<rparr>"

definition some_timestamp :: pystr where
  "some_timestamp = py ''2024-01-01 12:00:00''"

section \<open>The matcher\<close>

text \<open>
  A greedy repetition fails exactly when the rest of the pattern fails after every run
  of at least \<open>lo\<close> characters of the set: backtracking tries them all.
\<close>

lemma greedy_None_iff:
  "greedy P lo k s = None \<longleftrightarrow>
     (\<forall>xs ys. s = xs @ ys \<and> list_all P xs \<and> lo \<le> length xs \<longrightarrow> k ys = None)"
proof (induction s arbitrary: lo)
  case Nil
  then show ?case by auto
next
  case (Cons c cs)
  show ?case
  proof (cases "P c")
    case True
    have "(\<forall>xs ys. c # cs = xs @ ys \<and> list_all P xs \<and> lo \<le> length xs \<longrightarrow> k ys = None)
        \<longleftrightarrow> ((lo = 0 \<longrightarrow> k (c # cs) = None) \<and>
             (\<forall>xs ys. cs = xs @ ys \<and> list_all P xs \<and> lo - 1 \<le> length xs \<longrightarrow> k ys = None))"
      (is "?L \<longleftrightarrow> ?R")
    proof
      assume L: ?L
      show ?R
      proof (intro conjI allI impI)
        assume "lo = 0"
        then show "k (c # cs) = None" using L[rule_format, of "[]" "c # cs"] by simp
      next
        fix xs ys assume "cs = xs @ ys \<and> list_all P xs \<and> lo - 1 \<le> length xs"
        then show "k ys = None" using L[rule_format, of "c # xs" ys] True by auto
      qed
    next
      assume R: ?R
      show ?L
      proof (intro allI impI)
        fix xs ys assume a: "c # cs = xs @ ys \<and> list_all P xs \<and> lo \<le> length xs"
        show "k ys = None"
        proof (cases xs)
          case Nil
          then show ?thesis using a R by auto
        next
          case (Cons x xs')
          then show ?thesis using a R[THEN conjunct2, rule_format, of xs' ys] by auto
        qed
      qed
    qed
    then show ?thesis using True Cons.IH[of "lo - 1"] by (auto split: option.splits)
  next
    case False
    have "(\<forall>xs ys. c # cs = xs @ ys \<and> list_all P xs \<and> lo \<le> length xs \<longrightarrow> k ys = None)
        \<longleftrightarrow> (lo = 0 \<longrightarrow> k (c # cs) = None)"
      (is "?L \<longleftrightarrow> ?R")
    proof
      assume L: ?L
      show ?R using L[rule_format, of "[]" "c # cs"] by simp
    next
      assume R: ?R
      show ?L
      proof (intro allI impI)
        fix xs ys assume a: "c # cs = xs @ ys \<and> list_all P xs \<and> lo \<le> length xs"
        show "k ys = None"
        proof (cases xs)
          case Nil
          then show ?thesis using a R by auto
        next
          case (Cons x xs')
          then show ?thesis using a False by auto
        qed
      qed
    qed
    then show ?thesis using False by auto
  qed
qed

lemma sub_from_One: "sub_from [One C] w s = filter (\<lambda>c. \<not> in_set C c) s"
  by (induction s) auto

lemma escape_concat: "escape s = concat (map escape_char s)"
  by (induction s) (simp_all add: escape_def replace_def escape_char_def py_def ord_def)

lemma escape_char_not_special: "\<not> special c \<Longrightarrow> escape_char c = [c]"
  by (simp add: special_def escape_char_def ord_def)

lemma escape_id: "\<forall>c \<in> set s. \<not> special c \<Longrightarrow> escape s = s"
  by (induction s) (simp_all add: escape_concat escape_char_not_special)

lemma escape_char_set: "x \<in> set (escape_char c) \<Longrightarrow> x \<notin> ord ` {CHR ''<'', CHR ''>'', CHR 0x22, CHR 0x27}"
  by (auto simp add: escape_char_def py_def ord_def split: if_splits)

lemma escape_char_control: "x \<in> set (escape_char c) \<Longrightarrow> control x \<Longrightarrow> control c"
  by (auto simp add: escape_char_def py_def ord_def control_def split: if_splits)

lemma in_set_CONTROL: "in_set (Set [Range 0x00 0x1F, Range 0x7F 0x9F]) = control"
  by (rule ext) (auto simp add: control_def)

lemma re_sub_CONTROL: "re_sub CONTROL s = filter (\<lambda>c. \<not> control c) s"
  by (simp only: re_sub_def CONTROL_def sub_from_One in_set_CONTROL)

lemma match_TAG_None: "hd s \<noteq> ord CHR ''<'' \<Longrightarrow> match_atoms TAG w s = None"
  by (cases s) (simp_all add: TAG_def)

lemma sub_from_TAG_id: "ord CHR ''<'' \<notin> set s \<Longrightarrow> sub_from TAG w s = s"
  by (induction s) (simp_all add: match_TAG_None)

lemma set_strip: "set (strip s) \<subseteq> set s"
proof
  fix x assume "x \<in> set (strip s)"
  then have "x \<in> set (dropWhile isspace (rev (dropWhile isspace s)))"
    by (simp add: strip_def)
  then have "x \<in> set (rev (dropWhile isspace s))" by (rule set_dropWhileD)
  then have "x \<in> set (dropWhile isspace s)" by simp
  then show "x \<in> set s" by (rule set_dropWhileD)
qed

lemma strip_id: "s = [] \<or> (\<not> isspace (hd s) \<and> \<not> isspace (last s)) \<Longrightarrow> strip s = s"
  by (cases s) (auto simp: strip_def dropWhile_eq_self_iff hd_rev split: if_splits)

lemma last_dropWhile: "dropWhile P xs \<noteq> [] \<Longrightarrow> last (dropWhile P xs) = last xs"
  by (induction xs) (auto split: if_splits)

lemma strip_ends: "strip s = [] \<or> (\<not> isspace (hd (strip s)) \<and> \<not> isspace (last (strip s)))"
proof (cases "strip s = []")
  case True
  then show ?thesis by simp
next
  case False
  define d where "d = dropWhile isspace s"
  define e where "e = dropWhile isspace (rev d)"
  have s: "strip s = rev e" by (simp add: strip_def d_def e_def)
  with False have e: "e \<noteq> []" by simp
  then have d: "d \<noteq> []" by (auto simp: e_def)
  have "last (strip s) = hd e" using e by (simp add: s last_rev)
  moreover have "\<not> isspace (hd e)" using e unfolding e_def by (rule hd_dropWhile)
  moreover have "hd (strip s) = last e" using e by (simp add: s hd_rev)
  moreover have "last e = last (rev d)" using e unfolding e_def by (rule last_dropWhile)
  moreover have "last (rev d) = hd d" using d by (simp add: last_rev)
  moreover have "\<not> isspace (hd d)" using d unfolding d_def by (rule hd_dropWhile)
  ultimately show ?thesis by simp
qed

lemma greedy_Some_iff:
  "greedy P lo k s \<noteq> None \<longleftrightarrow>
     (\<exists>xs ys. s = xs @ ys \<and> list_all P xs \<and> lo \<le> length xs \<and> k ys \<noteq> None)"
proof -
  have "greedy P lo k s \<noteq> None \<longleftrightarrow>
      \<not> (\<forall>xs ys. s = xs @ ys \<and> list_all P xs \<and> lo \<le> length xs \<longrightarrow> k ys = None)"
    using greedy_None_iff[of P lo k s] by (rule arg_cong[of _ _ Not])
  also have "\<dots> \<longleftrightarrow> (\<exists>xs ys. s = xs @ ys \<and> list_all P xs \<and> lo \<le> length xs \<and> k ys \<noteq> None)"
    by (simp only: not_all not_imp conj_assoc)
  finally show ?thesis .
qed

lemma match_Lit: "match_atoms (Lit c # p) w s \<noteq> None \<longleftrightarrow> (\<exists>r. s = c # r \<and> match_atoms p w r \<noteq> None)"
  by (cases s) auto

lemma match_Eol: "match_atoms [Eol] w s \<noteq> None \<longleftrightarrow> (s = [] \<or> s = [0x0A])"
  by simp

lemma in_set_local:
  "in_set (Set [Range (ord CHR ''a'') (ord CHR ''z''), Range (ord CHR ''A'') (ord CHR ''Z''),
                 Range (ord CHR ''0'') (ord CHR ''9''), Ch (ord CHR ''.''), Ch (ord CHR ''_''),
                 Ch (ord CHR ''%''), Ch (ord CHR ''+''), Ch (ord CHR ''-'')]) = local_char"
  by (rule ext) (auto simp add: local_char_def letter_def ascii_digit_def)

lemma in_set_domain:
  "in_set (Set [Range (ord CHR ''a'') (ord CHR ''z''), Range (ord CHR ''A'') (ord CHR ''Z''),
                 Range (ord CHR ''0'') (ord CHR ''9''), Ch (ord CHR ''.''), Ch (ord CHR ''-'')]) = domain_char"
  by (rule ext) (auto simp add: domain_char_def letter_def ascii_digit_def)

lemma in_set_letter:
  "in_set (Set [Range (ord CHR ''a'') (ord CHR ''z''), Range (ord CHR ''A'') (ord CHR ''Z'')]) = letter"
  by (rule ext) (auto simp add: letter_def)


lemma match_tail:
  "match_atoms [AtLeast 2 (Set [Range (ord CHR ''a'') (ord CHR ''z''), Range (ord CHR ''A'') (ord CHR ''Z'')]), Eol] w s \<noteq> None
   \<longleftrightarrow> (\<exists>t e. s = t @ e \<and> list_all letter t \<and> 2 \<le> length t \<and> (e = [] \<or> e = [0x0A]))"
  by (simp only: match_atoms.simps(7) greedy_Some_iff in_set_letter match_Eol)

lemma match_domain:
  "match_atoms [Plus (Set [Range (ord CHR ''a'') (ord CHR ''z''), Range (ord CHR ''A'') (ord CHR ''Z''),
                 Range (ord CHR ''0'') (ord CHR ''9''), Ch (ord CHR ''.''), Ch (ord CHR ''-'')]),
      Lit (ord CHR ''.''),
      AtLeast 2 (Set [Range (ord CHR ''a'') (ord CHR ''z''), Range (ord CHR ''A'') (ord CHR ''Z'')]), Eol] w s \<noteq> None
   \<longleftrightarrow> (\<exists>d t e. s = d @ [ord CHR ''.''] @ t @ e \<and> list_all domain_char d \<and> 1 \<le> length d \<and>
           list_all letter t \<and> 2 \<le> length t \<and> (e = [] \<or> e = [0x0A]))"
  apply (simp only: match_atoms.simps(6) greedy_Some_iff in_set_domain match_Lit match_tail)
  apply (simp only: append_Cons append_Nil)
  apply blast
  done

lemma re_match_EMAIL_split:
  "re_match EMAIL s \<longleftrightarrow>
    (\<exists>l d t e. s = l @ [ord CHR ''@''] @ d @ [ord CHR ''.''] @ t @ e \<and> list_all local_char l \<and> 1 \<le> length l \<and>
        list_all domain_char d \<and> 1 \<le> length d \<and> list_all letter t \<and> 2 \<le> length t \<and> (e = [] \<or> e = [0x0A]))"
  (is "_ \<longleftrightarrow> ?R")
proof -
  let ?tail = "\<lambda>r. \<exists>d t e. r = d @ [ord CHR ''.''] @ t @ e \<and> list_all domain_char d \<and> 1 \<le> length d \<and>
           list_all letter t \<and> 2 \<le> length t \<and> (e = [] \<or> e = [0x0A])"
  have 1: "re_match EMAIL s \<longleftrightarrow>
      (\<exists>xs ys. s = xs @ ys \<and> list_all local_char xs \<and> 1 \<le> length xs \<and> (\<exists>r. ys = ord CHR ''@'' # r \<and> ?tail r))"
    unfolding re_match_def EMAIL_def
    by (simp only: match_atoms.simps(2) refl if_True greedy_Some_iff in_set_local match_Lit match_domain
        match_atoms.simps(6)[where C = "Set [Range (ord CHR ''a'') (ord CHR ''z''), Range (ord CHR ''A'') (ord CHR ''Z''),
                 Range (ord CHR ''0'') (ord CHR ''9''), Ch (ord CHR ''.''), Ch (ord CHR ''_''),
                 Ch (ord CHR ''%''), Ch (ord CHR ''+''), Ch (ord CHR ''-'')]"])
  show ?thesis
  proof
    assume "re_match EMAIL s"
    then have "\<exists>xs ys. s = xs @ ys \<and> list_all local_char xs \<and> 1 \<le> length xs \<and> (\<exists>r. ys = ord CHR ''@'' # r \<and> ?tail r)"
      by (simp only: 1)
    then show ?R
    proof (elim exE conjE)
      fix xs ys r d t e
      assume a: "s = xs @ ys" "ys = ord CHR ''@'' # r" "r = d @ [ord CHR ''.''] @ t @ e"
        and b: "list_all local_char xs" "1 \<le> length xs" "list_all domain_char d" "1 \<le> length d"
          "list_all letter t" "2 \<le> length t" "e = [] \<or> e = [0x0A]"
      have "s = xs @ [ord CHR ''@''] @ d @ [ord CHR ''.''] @ t @ e" using a by simp
      then show ?R using b
        by (rule_tac x = xs in exI, rule_tac x = d in exI, rule_tac x = t in exI, rule_tac x = e in exI) simp
    qed
  next
    assume ?R
    then have "\<exists>xs ys. s = xs @ ys \<and> list_all local_char xs \<and> 1 \<le> length xs \<and> (\<exists>r. ys = ord CHR ''@'' # r \<and> ?tail r)"
    proof (elim exE conjE)
      fix l d t e
      assume a: "s = l @ [ord CHR ''@''] @ d @ [ord CHR ''.''] @ t @ e"
        and b: "list_all local_char l" "1 \<le> length l" "list_all domain_char d" "1 \<le> length d"
          "list_all letter t" "2 \<le> length t" "e = [] \<or> e = [0x0A]"
      have t: "?tail (d @ [ord CHR ''.''] @ t @ e)" using b
        by (rule_tac x = d in exI, rule_tac x = t in exI, rule_tac x = e in exI) simp
      show ?thesis using a b(1,2) t
        by (rule_tac x = l in exI, rule_tac x = "ord CHR ''@'' # d @ [ord CHR ''.''] @ t @ e" in exI) simp
    qed
    then show "re_match EMAIL s" by (simp only: 1)
  qed
qed
lemma re_match_EMAIL:
  "re_match EMAIL s \<longleftrightarrow> email_pattern s \<or> (\<exists>t. s = t @ [0x0A] \<and> email_pattern t)"
  (is "_ \<longleftrightarrow> ?R")
proof
  assume "re_match EMAIL s"
  then have "\<exists>l d t e. s = l @ [ord CHR ''@''] @ d @ [ord CHR ''.''] @ t @ e \<and> list_all local_char l \<and> 1 \<le> length l \<and>
        list_all domain_char d \<and> 1 \<le> length d \<and> list_all letter t \<and> 2 \<le> length t \<and> (e = [] \<or> e = [0x0A])"
    by (simp only: re_match_EMAIL_split)
  then show ?R
  proof (elim exE conjE)
    fix l d t e
    assume s: "s = l @ [ord CHR ''@''] @ d @ [ord CHR ''.''] @ t @ e"
      and b: "list_all local_char l" "1 \<le> length l" "list_all domain_char d" "1 \<le> length d"
          "list_all letter t" "2 \<le> length t" and e: "e = [] \<or> e = [0x0A]"
    have l0: "l \<noteq> []" and d0: "d \<noteq> []" using b(2,4) by auto
    have p: "email_pattern (l @ [ord CHR ''@''] @ d @ [ord CHR ''.''] @ t)"
      unfolding email_pattern_def using b l0 d0
      by (rule_tac x = l in exI, rule_tac x = d in exI, rule_tac x = t in exI) simp
    from e show ?R
    proof
      assume "e = []"
      with s p have "email_pattern s" by simp
      then show ?R ..
    next
      assume "e = [0x0A]"
      with s have "s = (l @ [ord CHR ''@''] @ d @ [ord CHR ''.''] @ t) @ [0x0A]" by simp
      with p have "\<exists>t. s = t @ [0x0A] \<and> email_pattern t"
        by (rule_tac x = "l @ [ord CHR ''@''] @ d @ [ord CHR ''.''] @ t" in exI) simp
      then show ?R ..
    qed
  qed
next
  assume a: ?R
  have "\<exists>u e. s = u @ e \<and> email_pattern u \<and> (e = [] \<or> e = [0x0A])"
  proof (rule disjE[OF a])
    assume "email_pattern s"
    then show ?thesis by (rule_tac x = s in exI, rule_tac x = "[]" in exI) simp
  next
    assume "\<exists>t. s = t @ [0x0A] \<and> email_pattern t"
    then show ?thesis
    proof (elim exE conjE)
      fix t assume "s = t @ [0x0A]" "email_pattern t"
      then show ?thesis by (rule_tac x = t in exI, rule_tac x = "[0x0A]" in exI) simp
    qed
  qed
  then show "re_match EMAIL s"
  proof (elim exE conjE)
    fix u e assume s: "s = u @ e" and u: "email_pattern u" and e: "e = [] \<or> e = [0x0A]"
    from u have "\<exists>l d t. u = l @ [ord CHR ''@''] @ d @ [ord CHR ''.''] @ t \<and>
        l \<noteq> [] \<and> list_all local_char l \<and> d \<noteq> [] \<and> list_all domain_char d \<and> 2 \<le> length t \<and> list_all letter t"
      by (simp only: email_pattern_def)
    then show "re_match EMAIL s"
    proof (elim exE conjE)
      fix l d t
      assume u': "u = l @ [ord CHR ''@''] @ d @ [ord CHR ''.''] @ t"
        and l: "l \<noteq> []" "list_all local_char l" and d: "d \<noteq> []" "list_all domain_char d"
        and t: "2 \<le> length t" "list_all letter t"
      have l1: "1 \<le> length l" using l(1) by (cases l) simp_all
      have d1: "1 \<le> length d" using d(1) by (cases d) simp_all
      have s': "s = l @ [ord CHR ''@''] @ d @ [ord CHR ''.''] @ t @ e" using s u' by simp
      show "re_match EMAIL s"
        unfolding re_match_EMAIL_split using s' l(2) l1 d(2) d1 t e
        by (rule_tac x = l in exI, rule_tac x = d in exI, rule_tac x = t in exI, rule_tac x = e in exI) simp
    qed
  qed
qed

section \<open>Email validation\<close>

lemma email_pattern_chars:
  assumes "email_pattern s" and "c \<in> set s"
  shows "local_char c \<or> c = ord CHR ''@''"
proof -
  from assms(1) have "\<exists>l d t. s = l @ [ord CHR ''@''] @ d @ [ord CHR ''.''] @ t \<and>
        l \<noteq> [] \<and> list_all local_char l \<and> d \<noteq> [] \<and> list_all domain_char d \<and> 2 \<le> length t \<and> list_all letter t"
    by (simp only: email_pattern_def)
  then show ?thesis
  proof (elim exE conjE)
    fix l d t
    assume s: "s = l @ [ord CHR ''@''] @ d @ [ord CHR ''.''] @ t"
      and l: "list_all local_char l" and d: "list_all domain_char d" and t: "list_all letter t"
    from assms(2) s have "c \<in> set l \<or> c = ord CHR ''@'' \<or> c \<in> set d \<or> c = ord CHR ''.'' \<or> c \<in> set t"
      by auto
    then show ?thesis using l d t
      by (auto simp: list_all_iff local_char_def domain_char_def)
  qed
qed

lemma email_pattern_nonempty: "email_pattern s \<Longrightarrow> s \<noteq> []"
  by (auto simp: email_pattern_def)

lemma not_local_char_newline: "\<not> local_char 0x0A" "0x0A \<noteq> ord CHR ''@''"
  by (simp_all add: local_char_def letter_def ascii_digit_def ord_def)

lemma email_pattern_no_newline: "email_pattern s \<Longrightarrow> 0x0A \<notin> set s"
  using email_pattern_chars[of s "0x0A"] not_local_char_newline by auto

lemma strip_no_trailing_newline: "strip s \<noteq> t @ [0x0A]"
proof
  assume a: "strip s = t @ [0x0A]"
  then have "strip s \<noteq> []" and "last (strip s) = 0x0A" by simp_all
  with strip_ends[of s] have "\<not> isspace 0x0A" by auto
  then show False by (simp add: isspace_def)
qed

text \<open>
  What \<open>validate_email\<close> accepts, for any argument: the matches of the email pattern, and
  a match followed by one newline, since \<^verbatim>\<open>$\<close> also matches just before a newline that
  ends the string. A trimmed string ends in no newline, so on the trimmed field that the
  handler passes (line 107) \<open>validate_email\<close> accepts exactly the matches of the pattern.
\<close>

lemma validate_email_iff:
  "validate_email s = (email_pattern s \<or> (\<exists>t. s = t @ [0x0A] \<and> email_pattern t))"
proof (cases "s = []")
  case True
  then show ?thesis using email_pattern_nonempty[of s] by (auto simp add: validate_email_def)
next
  case False
  then show ?thesis by (simp only: validate_email_def if_False re_match_EMAIL)
qed

lemma validate_email_strip: "validate_email (strip s) = email_pattern (strip s)"
  using strip_no_trailing_newline[of s] by (simp add: validate_email_iff)

section \<open>Sanitization\<close>

lemma special_lt: "special (ord CHR ''<'')" "special (ord CHR ''&'')"
  by (simp_all add: special_def)

lemma sanitize_input_clean:
  assumes "\<And>c. c \<in> set s \<Longrightarrow> \<not> special c \<and> \<not> control c"
    and "s = [] \<or> (\<not> isspace (hd s) \<and> \<not> isspace (last s))"
  shows "sanitize_input s = s"
proof (cases "s = []")
  case True
  then show ?thesis by (simp add: sanitize_input_def)
next
  case False
  have "ord CHR ''<'' \<notin> set s" using assms(1) special_lt(1) by blast
  then have 1: "re_sub TAG s = s" by (simp add: re_sub_def sub_from_TAG_id)
  have 2: "escape s = s" using assms(1) by (simp add: escape_id)
  have 3: "re_sub CONTROL s = s" using assms(1) by (simp add: re_sub_CONTROL filter_id_conv)
  have 4: "strip s = s" using assms(2) by (rule strip_id)
  show ?thesis using False by (simp add: sanitize_input_def 1 2 3 4)
qed

lemma set_escape: "x \<in> set (escape s) \<Longrightarrow> \<exists>c \<in> set s. x \<in> set (escape_char c)"
  by (auto simp: escape_concat)

lemma set_sanitize_input:
  assumes "x \<in> set (sanitize_input s)"
  shows "\<not> control x \<and> (\<exists>c. x \<in> set (escape_char c))"
proof -
  from assms have ne: "s \<noteq> []" by (auto simp: sanitize_input_def)
  with assms have "x \<in> set (strip (re_sub CONTROL (escape (re_sub TAG s))))"
    by (simp add: sanitize_input_def)
  then have "x \<in> set (re_sub CONTROL (escape (re_sub TAG s)))" using set_strip by blast
  then have "\<not> control x" and "x \<in> set (escape (re_sub TAG s))"
    by (simp_all add: re_sub_CONTROL)
  then show ?thesis using set_escape by blast
qed

lemma sanitize_input_no_markup:
  "x \<in> set (sanitize_input s) \<Longrightarrow> x \<notin> ord ` {CHR ''<'', CHR ''>'', CHR 0x22, CHR 0x27}"
  using set_sanitize_input[of x s] escape_char_set by blast

lemma sanitize_input_ends:
  "sanitize_input s = [] \<or> (\<not> isspace (hd (sanitize_input s)) \<and> \<not> isspace (last (sanitize_input s)))"
  using strip_ends by (simp add: sanitize_input_def)

lemma search_from_TAG: "ord CHR ''<'' \<notin> set s \<Longrightarrow> \<not> search_from TAG w s"
  by (induction s) (simp_all add: match_TAG_None, simp add: TAG_def)

lemma contains_tag_lt: "contains_tag s \<Longrightarrow> ord CHR ''<'' \<in> set s"
  by (auto simp: contains_tag_def tag_like_def)

text \<open>
  Claim C5. Whatever the input, the output of \<open>sanitize_input\<close> holds neither \<^verbatim>\<open><\<close>
  nor \<^verbatim>\<open>>\<close>, so no part of it is tag-like and the tag pattern of the source finds no
  match in it; and it holds no control character of the ranges 0x00 to 0x1F and 0x7F to
  0x9F.
\<close>

theorem sanitize_input_output:
  "ord CHR ''<'' \<notin> set (sanitize_input s) \<and> ord CHR ''>'' \<notin> set (sanitize_input s) \<and>
   \<not> contains_tag (sanitize_input s) \<and> \<not> re_search TAG (sanitize_input s) \<and>
   \<not> list_ex control (sanitize_input s)"
proof -
  have lt: "ord CHR ''<'' \<notin> set (sanitize_input s)" and gt: "ord CHR ''>'' \<notin> set (sanitize_input s)"
    using sanitize_input_no_markup[of _ s] by auto
  have "\<not> contains_tag (sanitize_input s)" using lt contains_tag_lt by blast
  moreover have "\<not> re_search TAG (sanitize_input s)" using lt by (simp add: re_search_def search_from_TAG)
  moreover have "\<not> list_ex control (sanitize_input s)"
    using set_sanitize_input[of _ s] by (auto simp: list_ex_iff)
  ultimately show ?thesis using lt gt by simp
qed

lemma escape_char_nonempty: "escape_char c \<noteq> []"
  by (simp add: escape_char_def py_def)

lemma hd_escape: "s \<noteq> [] \<Longrightarrow> hd (escape s) = hd (escape_char (hd s))"
  by (cases s) (simp_all add: escape_concat escape_char_nonempty)

lemma last_escape: "s \<noteq> [] \<Longrightarrow> last (escape s) = last (escape_char (last s))"
  by (induction s) (auto simp add: escape_concat escape_char_nonempty)

lemma escape_char_ends:
  "\<not> isspace c \<Longrightarrow> \<not> isspace (hd (escape_char c)) \<and> \<not> isspace (last (escape_char c))"
  by (simp add: escape_char_def py_def ord_def isspace_def)

lemma length_escape_char: "1 \<le> length (escape_char c)" "length (escape_char (ord CHR ''&'')) = 5"
  by (simp_all add: escape_char_def py_def)

lemma length_escape: "length s \<le> length (escape s)"
proof (induction s)
  case Nil
  then show ?case by (simp add: escape_concat)
next
  case (Cons c cs)
  then show ?case using length_escape_char(1)[of c] by (simp add: escape_concat)
qed

lemma length_escape_amp: "ord CHR ''&'' \<in> set s \<Longrightarrow> length s < length (escape s)"
proof (induction s)
  case Nil
  then show ?case by simp
next
  case (Cons c cs)
  show ?case
  proof (cases "c = ord CHR ''&''")
    case True
    then show ?thesis using length_escape[of cs] length_escape_char(2)
      by (simp add: escape_concat)
  next
    case False
    with Cons have "length cs < length (escape cs)" by simp
    then show ?thesis using length_escape_char(1)[of c] by (simp add: escape_concat)
  qed
qed

lemma escape_control: "x \<in> set (escape s) \<Longrightarrow> control x \<Longrightarrow> \<exists>c \<in> set s. control c"
  using set_escape escape_char_control by blast

lemma special_cases:
  "special c \<longleftrightarrow> c = ord CHR ''&'' \<or> c \<in> ord ` {CHR ''<'', CHR ''>'', CHR 0x22, CHR 0x27}"
  by (auto simp: special_def)

text \<open>
  Claim C4, as the code has it. Sanitizing a sanitized string gives the same string
  exactly when the sanitized string holds no ampersand: \<^verbatim>\<open>html.escape\<close> writes every
  special character as an entity that starts with \<^verbatim>\<open>&\<close>, and a second pass escapes that
  ampersand again.
\<close>

theorem sanitize_input_twice:
  "(sanitize_input (sanitize_input s) = sanitize_input s) = (ord CHR ''&'' \<notin> set (sanitize_input s))"
proof -
  define t where "t = sanitize_input s"
  have nc: "\<not> control c" if "c \<in> set t" for c
    using that set_sanitize_input[of c s] by (simp add: t_def)
  have nm: "c \<notin> ord ` {CHR ''<'', CHR ''>'', CHR 0x22, CHR 0x27}" if "c \<in> set t" for c
    using that sanitize_input_no_markup[of c s] by (simp add: t_def)
  have ends: "t = [] \<or> (\<not> isspace (hd t) \<and> \<not> isspace (last t))"
    using sanitize_input_ends[of s] by (simp add: t_def)
  have "(sanitize_input t = t) = (ord CHR ''&'' \<notin> set t)"
  proof
    assume eq: "sanitize_input t = t"
    show "ord CHR ''&'' \<notin> set t"
    proof
      assume amp: "ord CHR ''&'' \<in> set t"
      then have ne: "t \<noteq> []" by auto
      have "ord CHR ''<'' \<notin> set t" using nm by auto
      then have 1: "re_sub TAG t = t" by (simp add: re_sub_def sub_from_TAG_id)
      have 3: "re_sub CONTROL (escape t) = escape t"
        using escape_control[of _ t] nc by (auto simp add: re_sub_CONTROL filter_id_conv)
      have e: "escape t \<noteq> []" using length_escape[of t] ne by auto
      have "\<not> isspace (hd (escape t)) \<and> \<not> isspace (last (escape t))"
        using ends ne escape_char_ends by (simp add: hd_escape last_escape)
      then have 4: "strip (escape t) = escape t" by (simp add: strip_id)
      have "sanitize_input t = escape t" using ne by (simp add: sanitize_input_def 1 3 4)
      with eq have "length (escape t) = length t" by simp
      with length_escape_amp[OF amp] show False by simp
    qed
  next
    assume "ord CHR ''&'' \<notin> set t"
    then have "\<not> special c \<and> \<not> control c" if "c \<in> set t" for c
      using that nc nm by (auto simp: special_cases)
    then show "sanitize_input t = t" using ends by (rule sanitize_input_clean)
  qed
  then show ?thesis by (simp only: t_def)
qed

text \<open>
  Claim C4 as the specification states it fails at the input \<^verbatim>\<open>&\<close>: it is sanitized
  to \<^verbatim>\<open>&amp;\<close>, and that to \<^verbatim>\<open>&amp;amp;\<close>.
\<close>

theorem sanitize_input_ampersand:
  "sanitize_input (sanitize_input (py ''&'')) \<noteq> sanitize_input (py ''&'')"
  by (simp add: sanitize_input_def re_sub_def TAG_def CONTROL_def escape_def replace_def strip_def
      isspace_def py_def ord_def)

lemma local_char_plain: "local_char c \<or> c = ord CHR ''@'' \<Longrightarrow> \<not> special c \<and> \<not> control c \<and> \<not> isspace c"
  by (auto simp add: local_char_def letter_def ascii_digit_def special_def control_def isspace_def ord_def)

lemma email_pattern_example: "email_pattern (py ''a@b.co'')"
  unfolding email_pattern_def
  by (rule exI[of _ "py ''a''"], rule exI[of _ "py ''b''"], rule exI[of _ "py ''co''"])
     (simp add: py_def ord_def local_char_def domain_char_def letter_def ascii_digit_def)

text \<open>
  Claim C10. A string that matches the email pattern from its first character to its last
  holds no tag, no character that \<^verbatim>\<open>html.escape\<close> rewrites, no control character and
  no whitespace: \<open>sanitize_input\<close> returns it unchanged.
\<close>

theorem sanitize_input_email:
  "email_pattern s \<Longrightarrow> sanitize_input s = s"
proof -
  assume p: "email_pattern s"
  then have ne: "s \<noteq> []" by (rule email_pattern_nonempty)
  have plain: "\<not> special c \<and> \<not> control c \<and> \<not> isspace c" if "c \<in> set s" for c
    using email_pattern_chars[OF p that] by (rule local_char_plain)
  have "\<not> isspace (hd s) \<and> \<not> isspace (last s)" using ne plain by simp
  then show ?thesis using plain by (intro sanitize_input_clean) simp_all
qed

text \<open>The address \<^verbatim>\<open>a@b.co\<close> matches the pattern and is returned unchanged.\<close>

theorem sanitize_input_email_witness:
  "email_pattern (py ''a@b.co'') \<and> sanitize_input (py ''a@b.co'') = py ''a@b.co''"
  using sanitize_input_email[OF email_pattern_example] email_pattern_example by simp

section \<open>Phone validation\<close>

lemma in_set_PHONE:
  "in_set (Set [Space, Ch (ord CHR ''-''), Ch (ord CHR ''(''), Ch (ord CHR '')''), Ch (ord CHR ''+'')]) = phone_formatting"
  by (rule ext) (auto simp add: phone_formatting_def)

lemma re_sub_PHONE_FORMATTING: "re_sub PHONE_FORMATTING s = filter (\<lambda>c. \<not> phone_formatting c) s"
  by (simp only: re_sub_def PHONE_FORMATTING_def sub_from_One in_set_PHONE)

text \<open>
  Claim C3, as the code has it. \<open>validate_phone\<close> passes the empty value. From any other
  value it removes every whitespace character (\<^verbatim>\<open>\s\<close>: the space, and also the tab, the
  newline and the other whitespace of Unicode) and the characters \<^verbatim>\<open>-\<close>, \<^verbatim>\<open>(\<close>, \<^verbatim>\<open>)\<close>
  and \<^verbatim>\<open>+\<close>; the value passes exactly when what remains is digits only and at least ten
  of them, whatever the digit table of the runtime is.
\<close>

theorem validate_phone_ok: "validate_phone digit phone = phone_ok digit phone"
proof (cases "phone = []")
  case True
  then show ?thesis by (simp add: validate_phone_def phone_ok_def)
next
  case False
  have "isdigit digit r \<and> 10 \<le> length r \<longleftrightarrow> list_all digit r \<and> 10 \<le> length r" for r
    by (auto simp: isdigit_def)
  then show ?thesis using False
    by (simp add: validate_phone_def phone_ok_def re_sub_PHONE_FORMATTING Let_def)
qed

text \<open>
  Claim C3 as the specification states it fails: with the space the only whitespace
  removed, the value \<^verbatim>\<open>12345\<close>, a tab, \<^verbatim>\<open>67890\<close> keeps the tab and is rejected; the
  code removes the tab and accepts the value. The digit table is the ASCII one here,
  which agrees with \<^verbatim>\<open>str.isdigit\<close> on every character of this value.
\<close>

theorem validate_phone_tab:
  "validate_phone ascii_digit (py ''12345'' @ [0x09] @ py ''67890'') \<and>
   \<not> spec_phone_ok ascii_digit (py ''12345'' @ [0x09] @ py ''67890'')"
  by (simp add: validate_phone_def re_sub_PHONE_FORMATTING phone_formatting_def isspace_def isdigit_def
      spec_phone_ok_def spec_phone_formatting_def ascii_digit_def py_def ord_def)

section \<open>The validator\<close>

lemma validation_errors_append:
  "validation_errors digit name email message phone =
     name_errors name @ email_errors email @ message_errors message @ phone_errors digit phone"
  by (simp add: validation_errors_def name_errors_def email_errors_def message_errors_def
      phone_errors_def Let_def)

lemma length_field_errors:
  "length (name_errors name) \<le> 1" "length (email_errors email) \<le> 1"
  "length (message_errors message) \<le> 1" "length (phone_errors digit phone) \<le> 1"
  by (simp_all add: name_errors_def email_errors_def message_errors_def phone_errors_def)

lemma phone_message_distinct:
  "py ''Invalid phone number format'' \<notin> set (name_errors name)"
  "py ''Invalid phone number format'' \<notin> set (email_errors email)"
  "py ''Invalid phone number format'' \<notin> set (message_errors message)"
  by (simp_all add: name_errors_def email_errors_def message_errors_def py_def ord_def)

lemma name_message_distinct:
  "\<not> list_ex name_message (email_errors email)"
  "\<not> list_ex name_message (message_errors message)"
  "\<not> list_ex name_message (phone_errors digit phone)"
  by (simp_all add: name_message_def name_required_def name_too_short_def name_too_long_def
      email_errors_def message_errors_def phone_errors_def py_def ord_def)

lemma filter_name_errors: "filter name_message (name_errors name) = name_errors name"
  by (simp add: name_errors_def name_message_def name_required_def name_too_short_def name_too_long_def)

lemma filter_name_message:
  "filter name_message (validation_errors digit name email message phone) = name_errors name"
  using name_message_distinct
  by (simp add: validation_errors_append filter_name_errors list_ex_iff filter_empty_conv)


text \<open>
  Claim C9. The error list is the errors of the name, then those of the email, then those
  of the message, then those of the phone: each field is checked whatever the other
  fields are, each gives at most one message, and the phone comes last.
\<close>

theorem validation_errors_collected:
  "validation_errors digit name email message phone =
     name_errors name @ email_errors email @ message_errors message @ phone_errors digit phone \<and>
   length (name_errors name) \<le> 1 \<and> length (email_errors email) \<le> 1 \<and>
   length (message_errors message) \<le> 1 \<and> length (phone_errors digit phone) \<le> 1"
  using validation_errors_append[of digit name email message phone] length_field_errors
  by simp

section \<open>The handler\<close>

lemma submit_invalid:
  "request_errors digit f \<noteq> [] \<Longrightarrow>
   submit_contact_form cfg digit timestamp post f =
     (\<lparr>status = 400, body_success = False,
       body_message = py ''Validation errors: '' @ join (py '', '') (request_errors digit f)\<rparr>, [])"
  by (simp add: submit_contact_form_def request_errors_def Let_def)

lemma submit_unconfigured:
  "request_errors digit f = [] \<Longrightarrow> \<not> configured cfg \<Longrightarrow>
   submit_contact_form cfg digit timestamp post f =
     (\<lparr>status = 500, body_success = False,
       body_message = py ''Server configuration error: Telegram Bot Token or Chat ID not configured''\<rparr>,
      [Sanitize (strip (form_get f (py ''name'') [])), Sanitize (strip (form_get f (py ''email'') []))] @
      (if strip (form_get f (py ''phone'') []) \<noteq> [] then [Sanitize (strip (form_get f (py ''phone'') []))] else []) @
      [Sanitize (strip (form_get f (py ''message'') []))])"
  by (simp add: submit_contact_form_def request_errors_def configured_def Let_def)

lemma submit_dispatch:
  "request_errors digit f = [] \<Longrightarrow> configured cfg \<Longrightarrow>
   submit_contact_form cfg digit timestamp post f =
     (fst (after_post (post (TELEGRAM_API_URL cfg) (outbound_payload cfg timestamp f) 10)),
      [Sanitize (strip (form_get f (py ''name'') [])), Sanitize (strip (form_get f (py ''email'') []))] @
      (if strip (form_get f (py ''phone'') []) \<noteq> [] then [Sanitize (strip (form_get f (py ''phone'') []))] else []) @
      [Sanitize (strip (form_get f (py ''message'') [])),
       HttpPost (TELEGRAM_API_URL cfg) (outbound_payload cfg timestamp f) 10] @
      snd (after_post (post (TELEGRAM_API_URL cfg) (outbound_payload cfg timestamp f) 10)))"
  by (simp add: submit_contact_form_def request_errors_def configured_def outbound_payload_def Let_def
      split: prod.splits)

lemma after_post_failed: "dispatch_failed outcome \<Longrightarrow> fst (after_post outcome) = failed_to_send"
  by (auto simp add: dispatch_failed_def after_post_def handle_exn_def rejected_by_remote_def
      split: post_outcome.splits exn.splits if_splits)

lemma valid_form_fields:
  "strip (form_get valid_form (py ''name'') []) = py ''Al''"
  "strip (form_get valid_form (py ''email'') []) = py ''a@b.co''"
  "strip (form_get valid_form (py ''message'') []) = py ''1234567890''"
  "strip (form_get valid_form (py ''phone'') []) = []"
  by (simp_all add: valid_form_def form_get_def strip_def isspace_def py_def ord_def)

lemma validate_email_example: "validate_email (py ''a@b.co'')"
  by (simp add: validate_email_def re_match_def EMAIL_def py_def ord_def)

lemma valid_form_errors: "request_errors digit valid_form = []"
  by (simp add: request_errors_def valid_form_fields validation_errors_def validate_email_example Let_def)
     (simp add: py_def)

lemma short_name_form_fields:
  "strip (form_get short_name_form (py ''name'') []) = py ''A''"
  "strip (form_get short_name_form (py ''email'') []) = py ''a@b.co''"
  "strip (form_get short_name_form (py ''message'') []) = py ''1234567890''"
  "strip (form_get short_name_form (py ''phone'') []) = []"
  by (simp_all add: short_name_form_def form_get_def strip_def isspace_def py_def ord_def)

lemma short_name_form_errors: "request_errors digit short_name_form = [name_too_short]"
  by (simp add: request_errors_def short_name_form_fields validation_errors_def validate_email_example
      Let_def name_too_short_def)
     (simp add: py_def)

lemma no_name_form_fields:
  "strip (form_get no_name_form (py ''name'') []) = []"
  "strip (form_get no_name_form (py ''email'') []) = py ''a@b.co''"
  "strip (form_get no_name_form (py ''message'') []) = py ''1234567890''"
  "strip (form_get no_name_form (py ''phone'') []) = []"
  by (simp_all add: no_name_form_def form_get_def strip_def isspace_def py_def ord_def)

lemma no_name_form_errors: "request_errors digit no_name_form = [name_required]"
  by (simp add: request_errors_def no_name_form_fields validation_errors_def validate_email_example
      Let_def name_required_def)
     (simp add: py_def)

lemma some_config_configured: "configured some_config"
  by (simp add: configured_def some_config_def py_def ord_def)

lemma source_config_unconfigured: "\<not> configured source_config"
  by (simp add: configured_def source_config_def)

lemma length_py: "length (py s) = length s"
  by (simp add: py_def)

text \<open>
  Claim C1. When the fields of a request give a non-empty list of validation errors, the
  answer has status 400 and the message \<^verbatim>\<open>Validation errors: \<close> followed by the errors
  joined with a comma and a space, and the run has no event: no field is sanitized and no
  outbound request is made.
\<close>

theorem submit_rejects_invalid:
  "request_errors digit f \<noteq> [] \<Longrightarrow>
   fst (submit_contact_form cfg digit timestamp post f) =
     \<lparr>status = 400, body_success = False,
      body_message = py ''Validation errors: '' @ join (py '', '') (request_errors digit f)\<rparr> \<and>
   snd (submit_contact_form cfg digit timestamp post f) = [] \<and>
   \<not> list_ex is_sanitize (snd (submit_contact_form cfg digit timestamp post f)) \<and>
   \<not> list_ex is_post (snd (submit_contact_form cfg digit timestamp post f))"
  by (simp add: submit_invalid)

text \<open>
  A request whose name is the one character \<^verbatim>\<open>A\<close> is answered so.
\<close>

theorem submit_rejects_invalid_witness:
  "request_errors ascii_digit short_name_form \<noteq> [] \<and>
   fst (submit_contact_form some_config ascii_digit some_timestamp times_out short_name_form) =
     \<lparr>status = 400, body_success = False,
      body_message = py ''Validation errors: Name must be at least 2 characters long''\<rparr> \<and>
   snd (submit_contact_form some_config ascii_digit some_timestamp times_out short_name_form) = []"
  using submit_rejects_invalid[of ascii_digit short_name_form some_config some_timestamp times_out]
  by (simp add: short_name_form_errors name_too_short_def py_def)

text \<open>
  Claim C6, as the code has it. Of the three messages of the name rule the error list holds
  exactly one when the trimmed name is empty (\<^verbatim>\<open>Name is required\<close>), has one character
  (the at-least-2 message) or more than 100 (the less-than-100 message), and none when its
  length is from 2 to 100; and a request whose trimmed name has fewer than 2 or more than
  100 characters is answered with status 400.
\<close>

theorem name_rule:
  "filter name_message (request_errors digit f) =
     (if strip (form_get f (py ''name'') []) = [] then [name_required]
      else if length (strip (form_get f (py ''name'') [])) < 2 then [name_too_short]
      else if length (strip (form_get f (py ''name'') [])) > 100 then [name_too_long]
      else []) \<and>
   (length (strip (form_get f (py ''name'') [])) < 2 \<or> length (strip (form_get f (py ''name'') [])) > 100
      \<longrightarrow> status (fst (submit_contact_form cfg digit timestamp post f)) = 400)"
proof
  show "filter name_message (request_errors digit f) =
     (if strip (form_get f (py ''name'') []) = [] then [name_required]
      else if length (strip (form_get f (py ''name'') [])) < 2 then [name_too_short]
      else if length (strip (form_get f (py ''name'') [])) > 100 then [name_too_long]
      else [])"
    by (simp add: request_errors_def filter_name_message name_errors_def name_required_def
        name_too_short_def name_too_long_def)
  show "length (strip (form_get f (py ''name'') [])) < 2 \<or> length (strip (form_get f (py ''name'') [])) > 100
      \<longrightarrow> status (fst (submit_contact_form cfg digit timestamp post f)) = 400"
  proof
    assume a: "length (strip (form_get f (py ''name'') [])) < 2 \<or> length (strip (form_get f (py ''name'') [])) > 100"
    then have "name_errors (strip (form_get f (py ''name'') [])) \<noteq> []"
      by (auto simp add: name_errors_def)
    then have "request_errors digit f \<noteq> []"
      by (simp add: request_errors_def validation_errors_append)
    then show "status (fst (submit_contact_form cfg digit timestamp post f)) = 400"
      by (simp add: submit_invalid)
  qed
qed

text \<open>
  A request whose name is the one character \<^verbatim>\<open>A\<close> is rejected with the at-least-2 message.
\<close>

theorem name_rule_witness:
  "length (strip (form_get short_name_form (py ''name'') [])) < 2 \<and>
   status (fst (submit_contact_form some_config ascii_digit some_timestamp times_out short_name_form)) = 400 \<and>
   filter name_message (request_errors ascii_digit short_name_form) = [name_too_short]"
proof -
  have l: "length (strip (form_get short_name_form (py ''name'') [])) < 2"
    by (simp add: short_name_form_fields length_py)
  have n: "strip (form_get short_name_form (py ''name'') []) \<noteq> []"
    by (simp add: short_name_form_fields) (simp add: py_def)
  show ?thesis
    using name_rule[of ascii_digit short_name_form some_config some_timestamp times_out] l n
    by simp
qed

text \<open>
  Claim C6 as the specification states it fails for the empty name: its trimmed length, 0,
  is less than 2, and the error list holds neither message about the length of the name;
  the answer says \<^verbatim>\<open>Name is required\<close>.
\<close>

theorem empty_name_not_length_error:
  "length (strip (form_get no_name_form (py ''name'') [])) < 2 \<and>
   \<not> list_ex name_length_message (request_errors ascii_digit no_name_form) \<and>
   body_message (fst (submit_contact_form some_config ascii_digit some_timestamp times_out no_name_form)) =
     py ''Validation errors: Name is required''"
proof (intro conjI)
  show "length (strip (form_get no_name_form (py ''name'') [])) < 2"
    by (simp add: no_name_form_fields)
  show "\<not> list_ex name_length_message (request_errors ascii_digit no_name_form)"
    by (simp add: no_name_form_errors name_length_message_def name_required_def name_too_short_def
        name_too_long_def py_def ord_def)
  show "body_message (fst (submit_contact_form some_config ascii_digit some_timestamp times_out no_name_form)) =
     py ''Validation errors: Name is required''"
    by (simp add: no_name_form_errors submit_invalid name_required_def py_def)
qed

text \<open>
  Claim C7. When a valid request meets a configuration in which the token or the chat
  identifier is still the placeholder, the answer is the configuration error with status
  500, and no event of the run is an outbound request.
\<close>

theorem submit_unconfigured_500:
  "request_errors digit f = [] \<Longrightarrow>
   TELEGRAM_BOT_TOKEN cfg = py ''YOUR_BOT_TOKEN_HERE'' \<or> TELEGRAM_CHAT_ID cfg = py ''YOUR_CHAT_ID_HERE'' \<Longrightarrow>
   fst (submit_contact_form cfg digit timestamp post f) =
     \<lparr>status = 500, body_success = False,
      body_message = py ''Server configuration error: Telegram Bot Token or Chat ID not configured''\<rparr> \<and>
   \<not> list_ex is_post (snd (submit_contact_form cfg digit timestamp post f))"
proof -
  assume e: "request_errors digit f = []"
    and c: "TELEGRAM_BOT_TOKEN cfg = py ''YOUR_BOT_TOKEN_HERE'' \<or> TELEGRAM_CHAT_ID cfg = py ''YOUR_CHAT_ID_HERE''"
  from c have "\<not> configured cfg" by (auto simp: configured_def)
  with e show ?thesis by (simp add: submit_unconfigured)
qed

text \<open>
  The end-to-end example of the specification under the configuration of the source.
\<close>

theorem submit_unconfigured_500_witness:
  "request_errors ascii_digit valid_form = [] \<and>
   TELEGRAM_BOT_TOKEN source_config = py ''YOUR_BOT_TOKEN_HERE'' \<and>
   status (fst (submit_contact_form source_config ascii_digit some_timestamp times_out valid_form)) = 500 \<and>
   \<not> list_ex is_post (snd (submit_contact_form source_config ascii_digit some_timestamp times_out valid_form))"
  using submit_unconfigured_500[of ascii_digit valid_form source_config some_timestamp times_out]
  by (simp add: valid_form_errors source_config_def)

text \<open>
  Claim C8, as the code has it. For a valid request under configured credentials, when the
  outbound call raises a \<^verbatim>\<open>RequestException\<close> (a timeout, a failed connection), or returns
  a status from 400 to 599, or returns another status with a body that is an object whose
  \<^verbatim>\<open>ok\<close> is missing or false, the answer is status 500 with the one fixed retry-later
  message: the same record whatever the text of the error is.
\<close>

theorem dispatch_failure_generic:
  "request_errors digit f = [] \<Longrightarrow> configured cfg \<Longrightarrow>
   dispatch_failed (post (TELEGRAM_API_URL cfg) (outbound_payload cfg timestamp f) 10) \<Longrightarrow>
   fst (submit_contact_form cfg digit timestamp post f) =
     \<lparr>status = 500, body_success = False,
      body_message = py ''Failed to send message. Please try again later.''\<rparr>"
  by (simp add: submit_dispatch after_post_failed failed_to_send_def)

text \<open>
  The end-to-end example of the specification when the outbound call times out.
\<close>

theorem dispatch_failure_generic_witness:
  "request_errors ascii_digit valid_form = [] \<and> configured some_config \<and>
   dispatch_failed (times_out (TELEGRAM_API_URL some_config) (outbound_payload some_config some_timestamp valid_form) 10) \<and>
   fst (submit_contact_form some_config ascii_digit some_timestamp times_out valid_form) =
     \<lparr>status = 500, body_success = False,
      body_message = py ''Failed to send message. Please try again later.''\<rparr>"
  using dispatch_failure_generic[of ascii_digit valid_form some_config times_out some_timestamp]
  by (simp add: valid_form_errors some_config_configured times_out_def dispatch_failed_def)

text \<open>
  Claim C8 as the specification states it fails for a status outside 2xx that is no error
  status: \<^verbatim>\<open>raise_for_status\<close> lets a 304 response pass, its body says \<^verbatim>\<open>ok\<close>, and the
  answer is the success with status 200.
\<close>

theorem status_304_reports_success:
  "request_errors ascii_digit valid_form = [] \<and> configured some_config \<and>
   spec_dispatch_failed (answers_304_ok (TELEGRAM_API_URL some_config) (outbound_payload some_config some_timestamp valid_form) 10) \<and>
   status (fst (submit_contact_form some_config ascii_digit some_timestamp answers_304_ok valid_form)) = 200"
  by (simp add: valid_form_errors some_config_configured submit_dispatch answers_304_ok_def
      spec_dispatch_failed_def after_post_def)

section \<open>The email rule\<close>

lemma all_invalid_form_fields:
  "strip (form_get all_invalid_form (py ''name'') []) = py ''A''"
  "strip (form_get all_invalid_form (py ''email'') []) = py ''nobody''"
  "strip (form_get all_invalid_form (py ''message'') []) = py ''short''"
  "strip (form_get all_invalid_form (py ''phone'') []) = py ''12345''"
  by (simp_all add: all_invalid_form_def form_get_def strip_def isspace_def py_def ord_def)

lemma all_invalid_form_checks:
  "\<not> validate_email (py ''nobody'')" "\<not> validate_phone digit (py ''12345'')"
  by (simp_all add: validate_email_def re_match_def EMAIL_def validate_phone_def re_sub_PHONE_FORMATTING
      phone_formatting_def isspace_def py_def ord_def)

lemma all_invalid_form_errors:
  "request_errors digit all_invalid_form =
     [py ''Name must be at least 2 characters long'', py ''Invalid email format'',
      py ''Message must be at least 10 characters long'', py ''Invalid phone number format'']"
  by (simp add: request_errors_def all_invalid_form_fields validation_errors_def all_invalid_form_checks
      Let_def length_py)
     (simp add: py_def)


lemma email_message_distinct:
  "py ''Invalid email format'' \<notin> set (name_errors name)"
  "py ''Invalid email format'' \<notin> set (message_errors message)"
  "py ''Invalid email format'' \<notin> set (phone_errors digit phone)"
  "py ''Email is required'' \<notin> set (name_errors name)"
  "py ''Email is required'' \<notin> set (message_errors message)"
  "py ''Email is required'' \<notin> set (phone_errors digit phone)"
  by (simp_all add: name_errors_def message_errors_def phone_errors_def py_def ord_def)

lemma email_errors_nonempty:
  "email \<noteq> [] \<Longrightarrow>
   (py ''Invalid email format'' \<in> set (email_errors email)) = (\<not> validate_email email) \<and>
   py ''Email is required'' \<notin> set (email_errors email)"
  by (simp add: email_errors_def) (simp add: py_def ord_def)

text \<open>
  Claim C2. Email validation is given the email field of the request, trimmed (line 107).
  For every such string that is not empty, \<open>validate_email\<close> passes exactly when the string
  matches the pattern \<^verbatim>\<open>local-part@domain.tld\<close> of the specification; the error list holds
  the email-format error exactly when the string does not match, and never the
  \<^verbatim>\<open>Email is required\<close> error; and a string that does not match has the request rejected
  with status 400.
\<close>

theorem email_rule:
  "strip (form_get f (py ''email'') []) \<noteq> [] \<Longrightarrow>
   validate_email (strip (form_get f (py ''email'') [])) =
     email_pattern (strip (form_get f (py ''email'') [])) \<and>
   (py ''Invalid email format'' \<in> set (request_errors digit f)) =
     (\<not> email_pattern (strip (form_get f (py ''email'') []))) \<and>
   py ''Email is required'' \<notin> set (request_errors digit f) \<and>
   (\<not> email_pattern (strip (form_get f (py ''email'') [])) \<longrightarrow>
      status (fst (submit_contact_form cfg digit timestamp post f)) = 400)"
proof -
  define email where "email = strip (form_get f (py ''email'') [])"
  assume "strip (form_get f (py ''email'') []) \<noteq> []"
  then have ne: "email \<noteq> []" by (simp add: email_def)
  have v: "validate_email email = email_pattern email"
    unfolding email_def by (rule validate_email_strip)
  have e: "(py ''Invalid email format'' \<in> set (email_errors email)) = (\<not> email_pattern email)"
    and r: "py ''Email is required'' \<notin> set (email_errors email)"
    using email_errors_nonempty[OF ne] v by simp_all
  have 2: "(py ''Invalid email format'' \<in> set (request_errors digit f)) = (\<not> email_pattern email)"
    using e by (simp add: request_errors_def validation_errors_append email_message_distinct email_def)
  have 3: "py ''Email is required'' \<notin> set (request_errors digit f)"
    using r by (simp add: request_errors_def validation_errors_append email_message_distinct email_def)
  have 4: "status (fst (submit_contact_form cfg digit timestamp post f)) = 400" if "\<not> email_pattern email"
  proof -
    from that 2 have "request_errors digit f \<noteq> []" by auto
    then show ?thesis by (simp add: submit_invalid)
  qed
  from v 2 3 4 show ?thesis unfolding email_def by blast
qed

text \<open>
  The email \<^verbatim>\<open>nobody\<close> does not match and is rejected with the email-format error; the
  email \<^verbatim>\<open>a@b.co\<close> matches and gives no email error.
\<close>

theorem email_rule_witness:
  "strip (form_get all_invalid_form (py ''email'') []) \<noteq> [] \<and>
   \<not> email_pattern (strip (form_get all_invalid_form (py ''email'') [])) \<and>
   py ''Invalid email format'' \<in> set (request_errors ascii_digit all_invalid_form) \<and>
   status (fst (submit_contact_form some_config ascii_digit some_timestamp times_out all_invalid_form)) = 400 \<and>
   strip (form_get valid_form (py ''email'') []) \<noteq> [] \<and>
   email_pattern (strip (form_get valid_form (py ''email'') [])) \<and>
   py ''Invalid email format'' \<notin> set (request_errors ascii_digit valid_form) \<and>
   py ''Email is required'' \<notin> set (request_errors ascii_digit valid_form)"
proof -
  have a: "strip (form_get all_invalid_form (py ''email'') []) \<noteq> []"
    by (simp add: all_invalid_form_fields) (simp add: py_def)
  have b: "strip (form_get valid_form (py ''email'') []) \<noteq> []"
    by (simp add: valid_form_fields) (simp add: py_def)
  have c: "\<not> validate_email (strip (form_get all_invalid_form (py ''email'') []))"
    by (simp add: all_invalid_form_fields all_invalid_form_checks)
  have d: "validate_email (strip (form_get valid_form (py ''email'') []))"
    by (simp add: valid_form_fields validate_email_example)
  show ?thesis
    using email_rule[OF a, of ascii_digit some_config some_timestamp times_out]
      email_rule[OF b, of ascii_digit some_config some_timestamp times_out] a b c d
    by simp
qed

end
